theory Spec2Isabelle
  imports Main "HOL-Library.AList"
begin

section \<open>JavaScript values, objects and the store\<close>

text \<open>
  The module \<^verbatim>\<open>features.ts\<close> of the feature-service package holds five functions that
  build a URL and an options object and hand both to the \<^verbatim>\<open>request\<close> collaborator.
  What the functions do depends on three things of the language they are written in:
  an optional member of an object may be absent, present with the value
  \<^verbatim>\<open>undefined\<close>, or present with a value; \<^verbatim>\<open>params\<close> is a reference to an object, so
  two option objects may share it; reading a member of \<^verbatim>\<open>undefined\<close> or \<^verbatim>\<open>null\<close>
  raises a TypeError. The embedding makes the three explicit.
\<close>

datatype js_error = TypeError

datatype jsval =
    JUndefined
  | JNull
  | JBool bool
  | JNum int
  | JStr string
  | JArr "jsval list"
  | JObj "(string \<times> jsval) list"
  | JError js_error

text \<open>
  An object is the list of its own members in insertion order; a store is the list of
  the objects allocated so far, and a reference is an index into it. Only the
  \<^verbatim>\<open>params\<close> objects live in the store, because they are the only objects the module
  writes through a reference it shares with its caller. A number inside a value is an
  integer (object ids); the module stores such numbers and never prints them.
\<close>

type_synonym obj = "(string \<times> jsval) list"
type_synonym ref = nat
type_synonym heap = "obj list"

definition alloc :: "obj \<Rightarrow> heap \<Rightarrow> ref \<times> heap" where
  "alloc ob h = (length h, h @ [ob])"

definition get_prop :: "obj \<Rightarrow> string \<Rightarrow> jsval" where
  "get_prop ob k = (case map_of ob k of None \<Rightarrow> JUndefined | Some v \<Rightarrow> v)"

definition read_prop :: "heap \<Rightarrow> ref \<Rightarrow> string \<Rightarrow> jsval" where
  "read_prop h r k = get_prop (h ! r) k"

definition write_prop :: "ref \<Rightarrow> string \<Rightarrow> jsval \<Rightarrow> heap \<Rightarrow> heap" where
  "write_prop r k v h = h[r := AList.update k v (h ! r)]"

text \<open>The operand test of \<^verbatim>\<open>!x\<close>: the values that count as false.\<close>

fun falsy :: "jsval \<Rightarrow> bool" where
  "falsy JUndefined = True"
| "falsy JNull = True"
| "falsy (JBool b) = (\<not> b)"
| "falsy (JNum n) = (n = 0)"
| "falsy (JStr s) = (s = [])"
| "falsy (JArr xs) = False"
| "falsy (JObj ms) = False"
| "falsy (JError e) = False"

text \<open>
  Reading the member \<open>k\<close> of a value, as in \<^verbatim>\<open>response.feature\<close>. The module reads only
  names that no built-in prototype defines, so a value that is not an object with that
  own member yields \<^verbatim>\<open>undefined\<close>, and \<^verbatim>\<open>undefined\<close> and \<^verbatim>\<open>null\<close> raise.
\<close>

fun member :: "jsval \<Rightarrow> string \<Rightarrow> js_error + jsval" where
  "member JUndefined k = Inl TypeError"
| "member JNull k = Inl TypeError"
| "member (JObj ms) k = Inr (get_prop ms k)"
| "member v k = Inr JUndefined"

fun has_prop :: "jsval \<Rightarrow> string \<Rightarrow> bool" where
  "has_prop (JObj ms) k = (map_of ms k \<noteq> None)"
| "has_prop v k = False"

text \<open>
  An optional member \<^verbatim>\<open>m?: T\<close> of an options object. The object spread
  \<^verbatim>\<open>{ m: d, ...o }\<close> keeps the default \<open>d\<close> only when \<open>o\<close> has no member \<open>m\<close> of its
  own: a member present with the value \<^verbatim>\<open>undefined\<close> overrides the default.
\<close>

datatype 'a optional = Absent | Undefined | Defined 'a

definition spread :: "'a optional \<Rightarrow> 'a optional \<Rightarrow> 'a optional" where
  "spread dflt given = (case given of Absent \<Rightarrow> dflt | _ \<Rightarrow> given)"

datatype http_method = GET | POST

text \<open>
  Modelled from the spec: the verb chosen by the request collaborator, which is imported
  from the request package and is not part of this source file. The spec has the
  collaborator take the method member of the options as a hint, and has the edit
  operations, for which this module sets no method, go out as POST; so the collaborator
  uses the hint when there is one and POST when the member is absent. The spec is silent
  on a method member that is present and undefined.
\<close>

definition request_method :: "http_method optional \<Rightarrow> http_method option" where
  "request_method hint =
     (case hint of Defined m \<Rightarrow> Some m | Absent \<Rightarrow> Some POST | Undefined \<Rightarrow> None)"

text \<open>
  A promise is modelled by the way it settles. \<^verbatim>\<open>p.then(f)\<close> with the single callback
  \<open>f\<close> resolves with \<open>f\<close>'s result, rejects with what \<open>f\<close> throws, and passes a
  rejection of \<open>p\<close> on.
\<close>

datatype promise = Resolved jsval | Rejected jsval

fun then_promise :: "promise \<Rightarrow> (jsval \<Rightarrow> js_error + jsval) \<Rightarrow> promise" where
  "then_promise (Resolved v) f = (case f v of Inl e \<Rightarrow> Rejected (JError e) | Inr w \<Rightarrow> Resolved w)"
| "then_promise (Rejected r) f = Rejected r"

text \<open>
  A feature id is a number that the template literal \<^verbatim>\<open>${requestOptions.id}\<close> turns into
  text. The ids of the model are the integers of magnitude below \<open>2\<^sup>5\<^sup>3\<close>: JavaScript's
  number type holds each of them exactly and prints each as its plain decimal numeral,
  with a minus sign when negative. Fractions, NaN, the infinities and larger magnitudes,
  which print in other notations, are not values of the type.
\<close>

typedef safe_int = "{i :: int. \<bar>i\<bar> < 2 ^ 53}"
  by (rule exI [of _ 0]) simp

setup_lifting type_definition_safe_int

fun digits :: "nat \<Rightarrow> string" where
  "digits n =
     (if n < 10 then [''0123456789'' ! n]
      else digits (n div 10) @ [''0123456789'' ! (n mod 10)])"

definition num_to_string :: "safe_int \<Rightarrow> string" where
  "num_to_string i =
     (let n = Rep_safe_int i
      in if n < 0 then CHR ''-'' # digits (nat (- n)) else digits (nat n))"





section \<open>Request options\<close>

text \<open>
  Every options interface of the module extends the collaborator's \<^verbatim>\<open>IRequestOptions\<close>,
  of which the module touches \<^verbatim>\<open>params\<close> and \<^verbatim>\<open>httpMethod\<close>, and adds \<^verbatim>\<open>url\<close>. The
  extension part of a record stands for whatever further members the caller's object
  has: a spread copies them unchanged.
\<close>

record request_options =
  url :: string
  params :: "ref optional"
  httpMethod :: "http_method optional"

record feature_request_options = request_options +
  id_num :: safe_int

record add_features_request_options = request_options +
  adds :: "jsval list"

record update_features_request_options = request_options +
  updates :: "jsval list"

record delete_features_request_options = request_options +
  deletes :: "int list"

section \<open>The five operations\<close>

text \<open>
  Each operation takes the collaborator \<open>request\<close>, the caller's options and the store.
  The collaborator receives the URL, the options object and the store in which the
  options' \<^verbatim>\<open>params\<close> reference is to be read, and returns its promise. An operation that
  writes to the store returns the store as its own writes leave it; a TypeError raised
  before the collaborator is called is the result \<open>Inl TypeError\<close>.
\<close>

definition getFeature ::
  "(string \<Rightarrow> 'a feature_request_options_scheme \<Rightarrow> heap \<Rightarrow> promise) \<Rightarrow>
   'a feature_request_options_scheme \<Rightarrow> heap \<Rightarrow> promise" where
  "getFeature request requestOptions h =
     (let url' = url requestOptions @ ''/'' @ num_to_string (id_num requestOptions);
          options = requestOptions\<lparr>httpMethod := spread (Defined GET) (httpMethod requestOptions)\<rparr>
      in then_promise (request url' options h) (\<lambda>response. member response ''feature''))"

definition queryFeatures ::
  "(string \<Rightarrow> 'a request_options_scheme \<Rightarrow> heap \<Rightarrow> promise) \<Rightarrow>
   'a request_options_scheme \<Rightarrow> heap \<Rightarrow> js_error + promise \<times> heap" where
  "queryFeatures request requestOptions h =
     (let (fresh, h0) = alloc [] h;
          options = requestOptions
            \<lparr>params := spread (Defined fresh) (params requestOptions),
             httpMethod := spread (Defined GET) (httpMethod requestOptions)\<rparr>
      in case params options of
           Defined p \<Rightarrow>
             (let h1 = (if falsy (read_prop h0 p ''where'')
                        then write_prop p ''where'' (JStr ''1=1'') h0 else h0);
                  h2 = (if falsy (read_prop h1 p ''outFields'')
                        then write_prop p ''outFields'' (JStr ''*'') h1 else h1)
              in Inr (request (url requestOptions @ ''/query'') options h2, h2))
         | _ \<Rightarrow> Inl TypeError)"

definition addFeatures ::
  "(string \<Rightarrow> 'a add_features_request_options_scheme \<Rightarrow> heap \<Rightarrow> promise) \<Rightarrow>
   'a add_features_request_options_scheme \<Rightarrow> heap \<Rightarrow> js_error + promise \<times> heap" where
  "addFeatures request requestOptions h =
     (let url' = url requestOptions @ ''/addFeatures'';
          (fresh, h0) = alloc [] h;
          options = requestOptions\<lparr>params := spread (Defined fresh) (params requestOptions)\<rparr>
      in case params options of
           Defined p \<Rightarrow>
             (let h1 = write_prop p ''features'' (JArr (adds requestOptions)) h0
              in Inr (request url' options h1, h1))
         | _ \<Rightarrow> Inl TypeError)"

definition updateFeatures ::
  "(string \<Rightarrow> 'a update_features_request_options_scheme \<Rightarrow> heap \<Rightarrow> promise) \<Rightarrow>
   'a update_features_request_options_scheme \<Rightarrow> heap \<Rightarrow> js_error + promise \<times> heap" where
  "updateFeatures request requestOptions h =
     (let url' = url requestOptions @ ''/updateFeatures'';
          (fresh, h0) = alloc [] h;
          options = requestOptions\<lparr>params := spread (Defined fresh) (params requestOptions)\<rparr>
      in case params options of
           Defined p \<Rightarrow>
             (let h1 = write_prop p ''features'' (JArr (updates requestOptions)) h0
              in Inr (request url' options h1, h1))
         | _ \<Rightarrow> Inl TypeError)"

definition deleteFeatures ::
  "(string \<Rightarrow> 'a delete_features_request_options_scheme \<Rightarrow> heap \<Rightarrow> promise) \<Rightarrow>
   'a delete_features_request_options_scheme \<Rightarrow> heap \<Rightarrow> js_error + promise \<times> heap" where
  "deleteFeatures request requestOptions h =
     (let url' = url requestOptions @ ''/deleteFeatures'';
          (fresh, h0) = alloc [] h;
          options = requestOptions\<lparr>params := spread (Defined fresh) (params requestOptions)\<rparr>
      in case params options of
           Defined p \<Rightarrow>
             (let h1 = write_prop p ''objectIds'' (JArr (map JNum (deletes requestOptions))) h0
              in Inr (request url' options h1, h1))
         | _ \<Rightarrow> Inl TypeError)"

section \<open>Sample calls\<close>

text \<open>Concrete collaborators, options and stores on which the results below are evaluated.\<close>

definition sample_feature :: jsval where
  "sample_feature = JObj [(''attributes'', JObj [(''status'', JStr ''alive'')])]"

definition resolving_request :: "jsval \<Rightarrow> string \<Rightarrow> 'o \<Rightarrow> heap \<Rightarrow> promise" where
  "resolving_request v u opts h = Resolved v"

definition rejecting_request :: "jsval \<Rightarrow> string \<Rightarrow> 'o \<Rightarrow> heap \<Rightarrow> promise" where
  "rejecting_request e u opts h = Rejected e"

definition verb_request :: "string \<Rightarrow> 'a request_options_scheme \<Rightarrow> heap \<Rightarrow> promise" where
  "verb_request u opts h =
     Resolved (case request_method (httpMethod opts) of
                 Some GET \<Rightarrow> JStr ''GET'' | Some POST \<Rightarrow> JStr ''POST'' | None \<Rightarrow> JUndefined)"

lift_definition id_42 :: safe_int is 42
  by simp



definition get_42 :: feature_request_options where
  "get_42 = \<lparr>url = ''https://svc/layer'', params = Absent, httpMethod = Absent, id_num = id_42\<rparr>"




definition update_undefined :: update_features_request_options where
  "update_undefined =
     \<lparr>url = ''U'', params = Undefined, httpMethod = Absent, updates = [sample_feature]\<rparr>"

definition add_over :: add_features_request_options where
  "add_over = \<lparr>url = ''U'', params = Defined 0, httpMethod = Absent, adds = [sample_feature]\<rparr>"

definition add_over_heap :: heap where
  "add_over_heap = [[(''features'', JStr ''X''), (''other'', JStr ''Y'')]]"

definition add_plain :: add_features_request_options where
  "add_plain = \<lparr>url = ''U'', params = Defined 0, httpMethod = Absent, adds = [sample_feature]\<rparr>"

definition update_plain :: update_features_request_options where
  "update_plain = \<lparr>url = ''U'', params = Defined 0, httpMethod = Absent, updates = [sample_feature]\<rparr>"

definition delete_plain :: delete_features_request_options where
  "delete_plain = \<lparr>url = ''U'', params = Defined 0, httpMethod = Absent, deletes = [1, 2, 3]\<rparr>"

definition plain_heap :: heap where
  "plain_heap = [[(''gdbVersion'', JStr ''v1'')]]"

definition add_get :: add_features_request_options where
  "add_get = \<lparr>url = ''U'', params = Absent, httpMethod = Defined GET, adds = [sample_feature]\<rparr>"

definition update_get :: update_features_request_options where
  "update_get = \<lparr>url = ''U'', params = Absent, httpMethod = Defined GET, updates = [sample_feature]\<rparr>"

definition delete_get :: delete_features_request_options where
  "delete_get = \<lparr>url = ''U'', params = Absent, httpMethod = Defined GET, deletes = [1, 2, 3]\<rparr>"

definition delete_123 :: delete_features_request_options where
  "delete_123 = \<lparr>url = ''U'', params = Absent, httpMethod = Absent, deletes = [1, 2, 3]\<rparr>"

definition query_blank :: request_options where
  "query_blank = \<lparr>url = ''U'', params = Defined 0, httpMethod = Absent\<rparr>"

definition blank_where_heap :: heap where
  "blank_where_heap = [[(''where'', JStr '''')]]"

definition query_given_heap :: heap where
  "query_given_heap = [[(''where'', JStr ''a=1''), (''outFields'', JArr [JStr ''name''])]]"

definition query_bare :: request_options where
  "query_bare = \<lparr>url = ''U'', params = Absent, httpMethod = Absent\<rparr>"

definition error_503 :: jsval where
  "error_503 = JObj [(''code'', JNum 503), (''message'', JStr ''Service Unavailable'')]"

definition update_bare :: update_features_request_options where
  "update_bare = \<lparr>url = ''U'', params = Absent, httpMethod = Absent, updates = [sample_feature]\<rparr>"

definition feature_response :: jsval where
  "feature_response = JObj [(''feature'', sample_feature), (''status'', JStr ''ok'')]"

definition error_response :: jsval where
  "error_response = JObj [(''error'', JObj [(''code'', JNum 400)])]"

section \<open>Decimal numerals\<close>










lemma digits_zero: "digits 0 = ''0''"
  by simp










section \<open>Objects and the store\<close>

text \<open>
  Writing a member changes that member of that object and nothing else; allocating an
  object leaves the objects already in the store where they are.
\<close>

lemma get_prop_update_same: "get_prop (AList.update k v ob) k = v"
  by (simp add: get_prop_def update_conv')

lemma map_of_update_other: "k' \<noteq> k \<Longrightarrow> map_of (AList.update k v ob) k' = map_of ob k'"
  by (simp add: update_conv')

lemma get_prop_update_other: "k' \<noteq> k \<Longrightarrow> get_prop (AList.update k v ob) k' = get_prop ob k'"
  by (simp add: get_prop_def update_conv')

lemma write_prop_same: "p < length h \<Longrightarrow> write_prop p k v h ! p = AList.update k v (h ! p)"
  by (simp add: write_prop_def)

lemma write_prop_other: "q \<noteq> p \<Longrightarrow> write_prop p k v h ! q = h ! q"
  by (simp add: write_prop_def)

lemma length_write_prop: "length (write_prop p k v h) = length h"
  by (simp add: write_prop_def)

lemma write_prop_alloc_same:
  "p < length h \<Longrightarrow> write_prop p k v (h @ [ob]) ! p = AList.update k v (h ! p)"
  by (simp add: write_prop_def nth_append)

lemma write_prop_alloc_new:
  "write_prop (length h) k v (h @ [ob]) ! length h = AList.update k v ob"
  by (simp add: write_prop_def)

lemma write_prop_alloc_other:
  "q < length h \<Longrightarrow> q \<noteq> p \<Longrightarrow> write_prop p k v (h @ [ob]) ! q = h ! q"
  by (simp add: write_prop_def nth_append)

section \<open>The call each operation makes\<close>

text \<open>
  Each operation unfolded by the three forms the caller's \<^verbatim>\<open>params\<close> member can take:
  an object of the caller's, absent (a fresh empty object takes its place), or present
  and \<^verbatim>\<open>undefined\<close> (the first member access on it raises).
\<close>

lemma getFeature_call:
  "getFeature request ro h =
     then_promise
       (request (url ro @ ''/'' @ num_to_string (id_num ro))
          (ro\<lparr>httpMethod := (if httpMethod ro = Absent then Defined GET else httpMethod ro)\<rparr>) h)
       (\<lambda>response. member response ''feature'')"
  by (cases "httpMethod ro") (simp_all add: getFeature_def spread_def Let_def)

lemma addFeatures_given:
  "params ro = Defined p \<Longrightarrow>
   addFeatures request ro h =
     Inr (request (url ro @ ''/addFeatures'') ro (write_prop p ''features'' (JArr (adds ro)) (h @ [[]])),
          write_prop p ''features'' (JArr (adds ro)) (h @ [[]]))"
  by (cases ro) (simp add: addFeatures_def alloc_def spread_def Let_def)

lemma addFeatures_absent:
  "params ro = Absent \<Longrightarrow>
   addFeatures request ro h =
     Inr (request (url ro @ ''/addFeatures'') (ro\<lparr>params := Defined (length h)\<rparr>)
            (write_prop (length h) ''features'' (JArr (adds ro)) (h @ [[]])),
          write_prop (length h) ''features'' (JArr (adds ro)) (h @ [[]]))"
  by (simp add: addFeatures_def alloc_def spread_def Let_def)

lemma addFeatures_undefined:
  "params ro = Undefined \<Longrightarrow> addFeatures request ro h = Inl TypeError"
  by (simp add: addFeatures_def alloc_def spread_def Let_def)

lemma updateFeatures_given:
  "params ro = Defined p \<Longrightarrow>
   updateFeatures request ro h =
     Inr (request (url ro @ ''/updateFeatures'') ro (write_prop p ''features'' (JArr (updates ro)) (h @ [[]])),
          write_prop p ''features'' (JArr (updates ro)) (h @ [[]]))"
  by (cases ro) (simp add: updateFeatures_def alloc_def spread_def Let_def)

lemma updateFeatures_absent:
  "params ro = Absent \<Longrightarrow>
   updateFeatures request ro h =
     Inr (request (url ro @ ''/updateFeatures'') (ro\<lparr>params := Defined (length h)\<rparr>)
            (write_prop (length h) ''features'' (JArr (updates ro)) (h @ [[]])),
          write_prop (length h) ''features'' (JArr (updates ro)) (h @ [[]]))"
  by (simp add: updateFeatures_def alloc_def spread_def Let_def)

lemma updateFeatures_undefined:
  "params ro = Undefined \<Longrightarrow> updateFeatures request ro h = Inl TypeError"
  by (simp add: updateFeatures_def alloc_def spread_def Let_def)

lemma deleteFeatures_given:
  "params ro = Defined p \<Longrightarrow>
   deleteFeatures request ro h =
     Inr (request (url ro @ ''/deleteFeatures'') ro
            (write_prop p ''objectIds'' (JArr (map JNum (deletes ro))) (h @ [[]])),
          write_prop p ''objectIds'' (JArr (map JNum (deletes ro))) (h @ [[]]))"
  by (cases ro) (simp add: deleteFeatures_def alloc_def spread_def Let_def)

lemma deleteFeatures_absent:
  "params ro = Absent \<Longrightarrow>
   deleteFeatures request ro h =
     Inr (request (url ro @ ''/deleteFeatures'') (ro\<lparr>params := Defined (length h)\<rparr>)
            (write_prop (length h) ''objectIds'' (JArr (map JNum (deletes ro))) (h @ [[]])),
          write_prop (length h) ''objectIds'' (JArr (map JNum (deletes ro))) (h @ [[]]))"
  by (simp add: deleteFeatures_def alloc_def spread_def Let_def)

lemma deleteFeatures_undefined:
  "params ro = Undefined \<Longrightarrow> deleteFeatures request ro h = Inl TypeError"
  by (simp add: deleteFeatures_def alloc_def spread_def Let_def)

lemma default_write_read:
  "p < length h \<Longrightarrow>
   read_prop (if falsy (read_prop h p k) then write_prop p k d h else h) p k
     = (if falsy (read_prop h p k) then d else read_prop h p k)"
  by (simp add: read_prop_def write_prop_same get_prop_update_same)

lemma default_write_map_of_other:
  "k' \<noteq> k \<Longrightarrow> p < length h \<Longrightarrow>
   map_of ((if falsy (read_prop h p k) then write_prop p k d h else h) ! p) k' = map_of (h ! p) k'"
  by (simp add: write_prop_same map_of_update_other)

lemma default_write_read_other:
  "k' \<noteq> k \<Longrightarrow> p < length h \<Longrightarrow>
   read_prop (if falsy (read_prop h p k) then write_prop p k d h else h) p k' = read_prop h p k'"
  by (simp add: read_prop_def write_prop_same get_prop_update_other)

lemma default_write_length:
  "length (if falsy (read_prop h p k) then write_prop p k d h else h) = length h"
  by (simp add: length_write_prop)

lemma default_write_other_object:
  "q \<noteq> p \<Longrightarrow> (if falsy (read_prop h p k) then write_prop p k d h else h) ! q = h ! q"
  by (simp add: write_prop_other)

lemma queryFeatures_call:
  assumes "spread (Defined (length h)) (params ro) = Defined p"
  shows "queryFeatures request ro h =
     (let h0 = h @ [[]];
          h1 = (if falsy (read_prop h0 p ''where'') then write_prop p ''where'' (JStr ''1=1'') h0 else h0);
          h2 = (if falsy (read_prop h1 p ''outFields'') then write_prop p ''outFields'' (JStr ''*'') h1 else h1)
      in Inr (request (url ro @ ''/query'')
                (ro\<lparr>params := Defined p, httpMethod := spread (Defined GET) (httpMethod ro)\<rparr>) h2, h2))"
  using assms by (simp add: queryFeatures_def alloc_def Let_def)

lemma queryFeatures_undefined:
  "params ro = Undefined \<Longrightarrow> queryFeatures request ro h = Inl TypeError"
  by (simp add: queryFeatures_def alloc_def spread_def Let_def)

lemma queryFeatures_store:
  assumes "p < length h0"
    and h1_def: "h1 = (if falsy (read_prop h0 p ''where'') then write_prop p ''where'' (JStr ''1=1'') h0 else h0)"
    and h2_def: "h2 = (if falsy (read_prop h1 p ''outFields'') then write_prop p ''outFields'' (JStr ''*'') h1 else h1)"
  shows "read_prop h2 p ''where''
           = (if falsy (read_prop h0 p ''where'') then JStr ''1=1'' else read_prop h0 p ''where'')"
    and "read_prop h2 p ''outFields''
           = (if falsy (read_prop h0 p ''outFields'') then JStr ''*'' else read_prop h0 p ''outFields'')"
    and "k \<noteq> ''where'' \<Longrightarrow> k \<noteq> ''outFields'' \<Longrightarrow> map_of (h2 ! p) k = map_of (h0 ! p) k"
    and "q \<noteq> p \<Longrightarrow> h2 ! q = h0 ! q"
proof -
  have l1: "p < length h1" using assms(1) by (simp add: h1_def default_write_length)
  have w1: "read_prop h1 p ''where''
              = (if falsy (read_prop h0 p ''where'') then JStr ''1=1'' else read_prop h0 p ''where'')"
    unfolding h1_def using assms(1) by (rule default_write_read)
  have o1: "read_prop h1 p ''outFields'' = read_prop h0 p ''outFields''"
    unfolding h1_def using assms(1) by (intro default_write_read_other) simp_all
  have "read_prop h2 p ''where'' = read_prop h1 p ''where''"
    unfolding h2_def using l1 by (intro default_write_read_other) simp_all
  with w1 show "read_prop h2 p ''where''
           = (if falsy (read_prop h0 p ''where'') then JStr ''1=1'' else read_prop h0 p ''where'')"
    by simp
  have "read_prop h2 p ''outFields''
          = (if falsy (read_prop h1 p ''outFields'') then JStr ''*'' else read_prop h1 p ''outFields'')"
    unfolding h2_def using l1 by (rule default_write_read)
  with o1 show "read_prop h2 p ''outFields''
           = (if falsy (read_prop h0 p ''outFields'') then JStr ''*'' else read_prop h0 p ''outFields'')"
    by simp
  show "k \<noteq> ''where'' \<Longrightarrow> k \<noteq> ''outFields'' \<Longrightarrow> map_of (h2 ! p) k = map_of (h0 ! p) k"
  proof -
    assume k: "k \<noteq> ''where''" "k \<noteq> ''outFields''"
    have "map_of (h2 ! p) k = map_of (h1 ! p) k"
      unfolding h2_def using k(2) l1 by (rule default_write_map_of_other)
    also have "\<dots> = map_of (h0 ! p) k"
      unfolding h1_def using k(1) assms(1) by (rule default_write_map_of_other)
    finally show ?thesis .
  qed
  show "q \<noteq> p \<Longrightarrow> h2 ! q = h0 ! q"
    by (simp add: h1_def h2_def write_prop_other)
qed

lemma queryFeatures_result:
  assumes "spread (Defined (length h)) (params ro) = Defined p" and "p \<le> length h"
  shows "\<exists>opts h'.
           (\<forall>request. queryFeatures request ro h = Inr (request (url ro @ ''/query'') opts h', h'))
         \<and> params opts = Defined p
         \<and> httpMethod opts = spread (Defined GET) (httpMethod ro)
         \<and> read_prop h' p ''where''
             = (if falsy (read_prop (h @ [[]]) p ''where'') then JStr ''1=1''
                else read_prop (h @ [[]]) p ''where'')
         \<and> read_prop h' p ''outFields''
             = (if falsy (read_prop (h @ [[]]) p ''outFields'') then JStr ''*''
                else read_prop (h @ [[]]) p ''outFields'')
         \<and> (\<forall>k. k \<noteq> ''where'' \<and> k \<noteq> ''outFields'' \<longrightarrow>
                map_of (h' ! p) k = map_of ((h @ [[]]) ! p) k)
         \<and> (\<forall>q. q \<noteq> p \<longrightarrow> h' ! q = (h @ [[]]) ! q)"
proof -
  define h0 where "h0 = h @ [[]]"
  define h1 where
    "h1 = (if falsy (read_prop h0 p ''where'') then write_prop p ''where'' (JStr ''1=1'') h0 else h0)"
  define h2 where
    "h2 = (if falsy (read_prop h1 p ''outFields'') then write_prop p ''outFields'' (JStr ''*'') h1 else h1)"
  define opts where
    "opts = ro\<lparr>params := Defined p, httpMethod := spread (Defined GET) (httpMethod ro)\<rparr>"
  have p: "p < length h0" using assms(2) by (simp add: h0_def)
  have call: "\<forall>request. queryFeatures request ro h = Inr (request (url ro @ ''/query'') opts h2, h2)"
    using queryFeatures_call [OF assms(1)] by (simp add: Let_def h0_def h1_def h2_def opts_def)
  note st = queryFeatures_store [OF p h1_def h2_def]
  have "params opts = Defined p" "httpMethod opts = spread (Defined GET) (httpMethod ro)"
    by (simp_all add: opts_def)
  with call st show ?thesis
    unfolding h0_def [symmetric] by (intro exI [of _ opts] exI [of _ h2]) simp
qed

lemma addFeatures_calls:
  assumes "params ro \<noteq> Undefined"
  shows "\<exists>opts hq. \<forall>request.
           addFeatures request ro h = Inr (request (url ro @ ''/addFeatures'') opts hq, hq)"
proof (cases "params ro")
  case Absent
  then show ?thesis by (intro exI allI) (rule addFeatures_absent)
next
  case Undefined
  with assms show ?thesis by simp
next
  case (Defined p)
  then show ?thesis by (intro exI allI) (rule addFeatures_given)
qed

lemma updateFeatures_calls:
  assumes "params ro \<noteq> Undefined"
  shows "\<exists>opts hq. \<forall>request.
           updateFeatures request ro h = Inr (request (url ro @ ''/updateFeatures'') opts hq, hq)"
proof (cases "params ro")
  case Absent
  then show ?thesis by (intro exI allI) (rule updateFeatures_absent)
next
  case Undefined
  with assms show ?thesis by simp
next
  case (Defined p)
  then show ?thesis by (intro exI allI) (rule updateFeatures_given)
qed

lemma deleteFeatures_calls:
  assumes "params ro \<noteq> Undefined"
  shows "\<exists>opts hq. \<forall>request.
           deleteFeatures request ro h = Inr (request (url ro @ ''/deleteFeatures'') opts hq, hq)"
proof (cases "params ro")
  case Absent
  then show ?thesis by (intro exI allI) (rule deleteFeatures_absent)
next
  case Undefined
  with assms show ?thesis by simp
next
  case (Defined p)
  then show ?thesis by (intro exI allI) (rule deleteFeatures_given)
qed

lemma queryFeatures_calls:
  assumes "params ro \<noteq> Undefined"
  shows "\<exists>opts hq. \<forall>request.
           queryFeatures request ro h = Inr (request (url ro @ ''/query'') opts hq, hq)"
proof -
  from assms obtain p where "spread (Defined (length h)) (params ro) = Defined p"
    by (cases "params ro") (simp_all add: spread_def)
  from queryFeatures_call [OF this] show ?thesis
    unfolding Let_def by (intro exI allI)
qed

lemma member_has_prop:
  "has_prop v k \<Longrightarrow> \<exists>ms x. v = JObj ms \<and> map_of ms k = Some x \<and> member v k = Inr x"
  by (cases v) (auto simp: get_prop_def)

lemma member_lacks_prop:
  "\<not> has_prop v k \<Longrightarrow> v \<noteq> JNull \<Longrightarrow> v \<noteq> JUndefined \<Longrightarrow> member v k = Inr JUndefined"
  by (cases v) (auto simp: get_prop_def)

lemma member_nullish:
  "v = JNull \<or> v = JUndefined \<Longrightarrow> member v k = Inl TypeError"
  by auto

section \<open>Properties of the operations\<close>



text \<open>
  Claim C1. When the caller's \<^verbatim>\<open>params\<close> is an object, \<^verbatim>\<open>addFeatures\<close> hands the
  collaborator options whose \<^verbatim>\<open>params\<close> has \<^verbatim>\<open>features\<close> equal to \<^verbatim>\<open>adds\<close>, whatever
  \<^verbatim>\<open>features\<close> the caller had put there, and every other member of the caller's
  \<^verbatim>\<open>params\<close> as it was.
\<close>

theorem addFeatures_sets_features:
  assumes "params ro = Defined p" and "p < length h"
  shows "\<exists>opts h'.
           (\<forall>request. addFeatures request ro h = Inr (request (url ro @ ''/addFeatures'') opts h', h'))
         \<and> params opts = Defined p
         \<and> read_prop h' p ''features'' = JArr (adds ro)
         \<and> (\<forall>k. k \<noteq> ''features'' \<longrightarrow> map_of (h' ! p) k = map_of (h ! p) k)"
proof (intro exI conjI allI impI)
  fix request
  show "addFeatures request ro h =
        Inr (request (url ro @ ''/addFeatures'') ro (write_prop p ''features'' (JArr (adds ro)) (h @ [[]])),
             write_prop p ''features'' (JArr (adds ro)) (h @ [[]]))"
    using assms(1) by (rule addFeatures_given)
next
  show "params ro = Defined p" by (rule assms(1))
next
  show "read_prop (write_prop p ''features'' (JArr (adds ro)) (h @ [[]])) p ''features'' = JArr (adds ro)"
    using assms(2) by (simp add: read_prop_def write_prop_alloc_same get_prop_update_same)
next
  fix k :: string
  assume "k \<noteq> ''features''"
  then show "map_of (write_prop p ''features'' (JArr (adds ro)) (h @ [[]]) ! p) k = map_of (h ! p) k"
    using assms(2) by (simp add: write_prop_alloc_same map_of_update_other)
qed

text \<open>The call \<^verbatim>\<open>addFeatures({url: U, adds: A, params: {features: X, other: Y}})\<close>.\<close>

theorem addFeatures_sets_features_witness:
  "params add_over = Defined 0 \<and> 0 < length add_over_heap
   \<and> read_prop add_over_heap 0 ''features'' = JStr ''X''
   \<and> (\<exists>opts h'.
         (\<forall>request. addFeatures request add_over add_over_heap = Inr (request ''U/addFeatures'' opts h', h'))
       \<and> params opts = Defined 0
       \<and> read_prop h' 0 ''features'' = JArr [sample_feature]
       \<and> map_of (h' ! 0) ''other'' = Some (JStr ''Y''))"
proof -
  have a: "params add_over = Defined 0" by (simp add: add_over_def)
  have b: "0 < length add_over_heap" by (simp add: add_over_heap_def)
  from addFeatures_sets_features [OF a b] obtain opts h' where
      c: "\<forall>request. addFeatures request add_over add_over_heap
            = Inr (request (url add_over @ ''/addFeatures'') opts h', h')"
    and d: "params opts = Defined 0"
    and e: "read_prop h' 0 ''features'' = JArr (adds add_over)"
    and f: "\<forall>k. k \<noteq> ''features'' \<longrightarrow> map_of (h' ! 0) k = map_of (add_over_heap ! 0) k"
    by blast
  from f have "map_of (h' ! 0) ''other'' = map_of (add_over_heap ! 0) ''other''" by simp
  then have g: "map_of (h' ! 0) ''other'' = Some (JStr ''Y'')" by (simp add: add_over_heap_def)
  have i: "read_prop add_over_heap 0 ''features'' = JStr ''X''"
    by (simp add: add_over_heap_def read_prop_def get_prop_def)
  from c d e g have "\<exists>opts h'.
         (\<forall>request. addFeatures request add_over add_over_heap = Inr (request ''U/addFeatures'' opts h', h'))
       \<and> params opts = Defined 0
       \<and> read_prop h' 0 ''features'' = JArr [sample_feature]
       \<and> map_of (h' ! 0) ''other'' = Some (JStr ''Y'')"
    by (auto simp: add_over_def)
  with a b i show ?thesis by blast
qed

text \<open>
  Claim C6. \<^verbatim>\<open>deleteFeatures({url: U, deletes: D})\<close>, with or without a \<^verbatim>\<open>params\<close> object
  of the caller's, calls the collaborator at \<^verbatim>\<open>U + "/deleteFeatures"\<close> with options whose
  \<^verbatim>\<open>params\<close> has \<^verbatim>\<open>objectIds\<close> equal to \<open>D\<close>, and returns the collaborator's promise as
  it is. The options carry the caller's method member unchanged; a call that names no
  method leaves the verb to the collaborator, which then uses POST.
\<close>

theorem deleteFeatures_posts_objectIds:
  assumes "params ro = Absent \<and> p = length h \<or> params ro = Defined p \<and> p < length h"
  shows "\<exists>opts h'.
           (\<forall>request. deleteFeatures request ro h
                        = Inr (request (url ro @ ''/deleteFeatures'') opts h', h'))
         \<and> params opts = Defined p
         \<and> read_prop h' p ''objectIds'' = JArr (map JNum (deletes ro))
         \<and> httpMethod opts = httpMethod ro
         \<and> (httpMethod ro = Absent \<longrightarrow> request_method (httpMethod opts) = Some POST)"
  using assms
proof (elim disjE conjE)
  assume a: "params ro = Absent" and p: "p = length h"
  let ?h' = "write_prop (length h) ''objectIds'' (JArr (map JNum (deletes ro))) (h @ [[]])"
  have "\<forall>request. deleteFeatures request ro h
          = Inr (request (url ro @ ''/deleteFeatures'') (ro\<lparr>params := Defined (length h)\<rparr>) ?h', ?h')"
    using a by (simp add: deleteFeatures_absent)
  moreover have "read_prop ?h' (length h) ''objectIds'' = JArr (map JNum (deletes ro))"
    by (simp add: read_prop_def write_prop_alloc_new get_prop_def)
  ultimately show ?thesis
    unfolding p by (intro exI [of _ "ro\<lparr>params := Defined (length h)\<rparr>"] exI [of _ ?h'])
      (simp add: request_method_def)
next
  assume a: "params ro = Defined p" and p: "p < length h"
  let ?h' = "write_prop p ''objectIds'' (JArr (map JNum (deletes ro))) (h @ [[]])"
  have "\<forall>request. deleteFeatures request ro h
          = Inr (request (url ro @ ''/deleteFeatures'') ro ?h', ?h')"
    using a by (simp add: deleteFeatures_given)
  moreover have "read_prop ?h' p ''objectIds'' = JArr (map JNum (deletes ro))"
    using p by (simp add: read_prop_def write_prop_alloc_same get_prop_update_same)
  ultimately show ?thesis
    using a by (intro exI [of _ ro] exI [of _ ?h']) (simp add: request_method_def)
qed

text \<open>The call \<^verbatim>\<open>deleteFeatures({url: U, deletes: [1,2,3]})\<close> of the spec.\<close>

theorem deleteFeatures_posts_objectIds_witness:
  "params delete_123 = Absent \<and> httpMethod delete_123 = Absent
   \<and> (\<exists>opts h'.
         (\<forall>request. deleteFeatures request delete_123 [] = Inr (request ''U/deleteFeatures'' opts h', h'))
       \<and> params opts = Defined 0
       \<and> read_prop h' 0 ''objectIds'' = JArr [JNum 1, JNum 2, JNum 3]
       \<and> request_method (httpMethod opts) = Some POST)"
proof -
  have a: "params delete_123 = Absent \<and> (0::nat) = length ([]::heap)
           \<or> params delete_123 = Defined 0 \<and> 0 < length ([]::heap)"
    by (simp add: delete_123_def)
  have b: "httpMethod delete_123 = Absent" by (simp add: delete_123_def)
  from deleteFeatures_posts_objectIds [OF a] b
  have "\<exists>opts h'.
         (\<forall>request. deleteFeatures request delete_123 [] = Inr (request ''U/deleteFeatures'' opts h', h'))
       \<and> params opts = Defined 0
       \<and> read_prop h' 0 ''objectIds'' = JArr [JNum 1, JNum 2, JNum 3]
       \<and> request_method (httpMethod opts) = Some POST"
    by (simp add: delete_123_def) blast
  then show ?thesis by (simp add: delete_123_def)
qed

text \<open>
  \<^verbatim>\<open>updateFeatures\<close> on the calls whose \<^verbatim>\<open>params\<close> is absent or an object: the collaborator
  is called at \<^verbatim>\<open>url + "/updateFeatures"\<close> with options whose \<^verbatim>\<open>params\<close> has \<^verbatim>\<open>features\<close>
  equal to \<^verbatim>\<open>updates\<close> and is otherwise the caller's \<^verbatim>\<open>params\<close> (empty when the caller
  gave none), and its promise is returned as it is.
\<close>

theorem updateFeatures_posts_features:
  assumes "params ro = Absent \<and> p = length h \<or> params ro = Defined p \<and> p < length h"
  shows "\<exists>opts h'.
           (\<forall>request. updateFeatures request ro h
                        = Inr (request (url ro @ ''/updateFeatures'') opts h', h'))
         \<and> params opts = Defined p
         \<and> read_prop h' p ''features'' = JArr (updates ro)
         \<and> (\<forall>k. k \<noteq> ''features'' \<longrightarrow>
               map_of (h' ! p) k = (if params ro = Absent then None else map_of (h ! p) k))"
  using assms
proof (elim disjE conjE)
  assume a: "params ro = Absent" and p: "p = length h"
  let ?h' = "write_prop (length h) ''features'' (JArr (updates ro)) (h @ [[]])"
  have "\<forall>request. updateFeatures request ro h
          = Inr (request (url ro @ ''/updateFeatures'') (ro\<lparr>params := Defined (length h)\<rparr>) ?h', ?h')"
    using a by (simp add: updateFeatures_absent)
  moreover have "read_prop ?h' (length h) ''features'' = JArr (updates ro)"
    by (simp add: read_prop_def write_prop_alloc_new get_prop_def)
  moreover have "\<forall>k. k \<noteq> ''features'' \<longrightarrow> map_of (?h' ! length h) k = None"
    by (simp add: write_prop_alloc_new)
  ultimately show ?thesis
    unfolding p using a
    by (intro exI [of _ "ro\<lparr>params := Defined (length h)\<rparr>"] exI [of _ ?h']) simp
next
  assume a: "params ro = Defined p" and p: "p < length h"
  let ?h' = "write_prop p ''features'' (JArr (updates ro)) (h @ [[]])"
  have "\<forall>request. updateFeatures request ro h
          = Inr (request (url ro @ ''/updateFeatures'') ro ?h', ?h')"
    using a by (simp add: updateFeatures_given)
  moreover have "read_prop ?h' p ''features'' = JArr (updates ro)"
    using p by (simp add: read_prop_def write_prop_alloc_same get_prop_update_same)
  moreover have "\<forall>k. k \<noteq> ''features'' \<longrightarrow> map_of (?h' ! p) k = map_of (h ! p) k"
    using p by (simp add: write_prop_alloc_same map_of_update_other)
  ultimately show ?thesis
    using a by (intro exI [of _ ro] exI [of _ ?h']) simp
qed

text \<open>A call whose \<^verbatim>\<open>params\<close> is the object \<^verbatim>\<open>{gdbVersion: "v1"}\<close>.\<close>

theorem updateFeatures_posts_features_witness:
  "params update_plain = Defined 0 \<and> 0 < length plain_heap
   \<and> (\<exists>opts h'.
         (\<forall>request. updateFeatures request update_plain plain_heap
                      = Inr (request ''U/updateFeatures'' opts h', h'))
       \<and> params opts = Defined 0
       \<and> read_prop h' 0 ''features'' = JArr [sample_feature]
       \<and> map_of (h' ! 0) ''gdbVersion'' = Some (JStr ''v1''))"
proof -
  have a: "params update_plain = Absent \<and> (0::nat) = length plain_heap
           \<or> params update_plain = Defined 0 \<and> 0 < length plain_heap"
    by (simp add: update_plain_def plain_heap_def)
  from updateFeatures_posts_features [OF a] obtain opts h' where
      c: "\<forall>request. updateFeatures request update_plain plain_heap
            = Inr (request (url update_plain @ ''/updateFeatures'') opts h', h')"
    and d: "params opts = Defined 0"
    and e: "read_prop h' 0 ''features'' = JArr (updates update_plain)"
    and f: "\<forall>k. k \<noteq> ''features'' \<longrightarrow>
              map_of (h' ! 0) k = (if params update_plain = Absent then None else map_of (plain_heap ! 0) k)"
    by blast
  from f have "map_of (h' ! 0) ''gdbVersion'' = map_of (plain_heap ! 0) ''gdbVersion''"
    by (simp add: update_plain_def)
  then have g: "map_of (h' ! 0) ''gdbVersion'' = Some (JStr ''v1'')" by (simp add: plain_heap_def)
  from c d e g have "\<exists>opts h'.
         (\<forall>request. updateFeatures request update_plain plain_heap
                      = Inr (request ''U/updateFeatures'' opts h', h'))
       \<and> params opts = Defined 0
       \<and> read_prop h' 0 ''features'' = JArr [sample_feature]
       \<and> map_of (h' ! 0) ''gdbVersion'' = Some (JStr ''v1'')"
    by (auto simp: update_plain_def)
  then show ?thesis by (simp add: update_plain_def plain_heap_def)
qed

text \<open>
  Claim C7 fails on the code. \<^verbatim>\<open>params\<close> is an optional member, so a caller may pass
  \<^verbatim>\<open>updateFeatures({url, updates, params: undefined})\<close>. The spread then overrides the
  default \<^verbatim>\<open>params: {}\<close> with \<^verbatim>\<open>undefined\<close>, the assignment to
  \<^verbatim>\<open>options.params.features\<close> raises a TypeError, and the collaborator is never called:
  no request goes to \<^verbatim>\<open>url + "/updateFeatures"\<close> and no promise is returned.
\<close>

theorem updateFeatures_undefined_params_raises:
  "params update_undefined = Undefined
   \<and> updateFeatures (resolving_request JNull) update_undefined [] = Inl TypeError
   \<and> updateFeatures (rejecting_request JNull) update_undefined [] = Inl TypeError"
  by (simp add: update_undefined_def updateFeatures_def alloc_def spread_def)

text \<open>
  Claim C4, as the code has it. When the caller's \<^verbatim>\<open>params\<close> is absent or an object,
  \<^verbatim>\<open>queryFeatures\<close> hands the collaborator a \<^verbatim>\<open>params\<close> in which \<^verbatim>\<open>where\<close> is
  \<^verbatim>\<open>"1=1"\<close> if the caller's value is absent or counts as false (an empty string does),
  and the caller's value unchanged otherwise; likewise \<^verbatim>\<open>outFields\<close> with \<^verbatim>\<open>"*"\<close>. Below,
  \<open>orig\<close> is the caller's \<^verbatim>\<open>params\<close> object before the call, the empty object when the
  caller gave none.
\<close>

theorem queryFeatures_defaults:
  assumes "params ro = Absent \<and> p = length h \<and> orig = []
         \<or> params ro = Defined p \<and> p < length h \<and> orig = h ! p"
  shows "\<exists>opts h'.
           (\<forall>request. queryFeatures request ro h = Inr (request (url ro @ ''/query'') opts h', h'))
         \<and> params opts = Defined p
         \<and> read_prop h' p ''where''
             = (if falsy (get_prop orig ''where'') then JStr ''1=1'' else get_prop orig ''where'')
         \<and> read_prop h' p ''outFields''
             = (if falsy (get_prop orig ''outFields'') then JStr ''*'' else get_prop orig ''outFields'')"
proof -
  from assms have s: "spread (Defined (length h)) (params ro) = Defined p" and le: "p \<le> length h"
    and o: "(h @ [[]]) ! p = orig"
    by (auto simp: spread_def nth_append)
  from queryFeatures_result [OF s le] obtain opts h' where
      c: "\<forall>request. queryFeatures request ro h = Inr (request (url ro @ ''/query'') opts h', h')"
    and d: "params opts = Defined p"
    and w: "read_prop h' p ''where''
             = (if falsy (read_prop (h @ [[]]) p ''where'') then JStr ''1=1''
                else read_prop (h @ [[]]) p ''where'')"
    and f: "read_prop h' p ''outFields''
             = (if falsy (read_prop (h @ [[]]) p ''outFields'') then JStr ''*''
                else read_prop (h @ [[]]) p ''outFields'')"
    by (elim exE conjE)
  have r: "read_prop (h @ [[]]) p k = get_prop orig k" for k
    by (simp add: read_prop_def o)
  show ?thesis
    by (intro exI [of _ opts] exI [of _ h'] conjI c d) (simp_all only: w f r)
qed

text \<open>
  A caller who supplies both \<^verbatim>\<open>where: "a=1"\<close> and \<^verbatim>\<open>outFields: ["name"]\<close>, and a
  caller who supplies no \<^verbatim>\<open>params\<close> at all.
\<close>

theorem queryFeatures_defaults_witness:
  "params query_blank = Defined 0 \<and> 0 < length query_given_heap
   \<and> (\<exists>opts h'.
         (\<forall>request. queryFeatures request query_blank query_given_heap
                      = Inr (request (url query_blank @ ''/query'') opts h', h'))
       \<and> params opts = Defined 0
       \<and> read_prop h' 0 ''where'' = JStr ''a=1''
       \<and> read_prop h' 0 ''outFields'' = JArr [JStr ''name''])
   \<and> params query_bare = Absent
   \<and> (\<exists>opts h'.
         (\<forall>request. queryFeatures request query_bare []
                      = Inr (request (url query_bare @ ''/query'') opts h', h'))
       \<and> params opts = Defined 0
       \<and> read_prop h' 0 ''where'' = JStr ''1=1''
       \<and> read_prop h' 0 ''outFields'' = JStr ''*'')"
proof -
  have a: "params query_blank = Defined 0" by (simp add: query_blank_def)
  have b: "0 < length query_given_heap" by (simp add: query_given_heap_def)
  have w: "get_prop (query_given_heap ! 0) ''where'' = JStr ''a=1''"
    and f: "get_prop (query_given_heap ! 0) ''outFields'' = JArr [JStr ''name'']"
    by (simp_all add: query_given_heap_def get_prop_def)
  from a b have "params query_blank = Absent \<and> 0 = length query_given_heap
             \<and> query_given_heap ! 0 = []
           \<or> params query_blank = Defined 0 \<and> 0 < length query_given_heap
             \<and> query_given_heap ! 0 = query_given_heap ! 0"
    by simp
  from queryFeatures_defaults [OF this]
  have c: "\<exists>opts h'.
         (\<forall>request. queryFeatures request query_blank query_given_heap
                      = Inr (request (url query_blank @ ''/query'') opts h', h'))
       \<and> params opts = Defined 0
       \<and> read_prop h' 0 ''where'' = JStr ''a=1''
       \<and> read_prop h' 0 ''outFields'' = JArr [JStr ''name'']"
    unfolding w f by simp
  have d: "params query_bare = Absent" by (simp add: query_bare_def)
  have e: "get_prop [] ''where'' = JUndefined" "get_prop [] ''outFields'' = JUndefined"
    by (simp_all add: get_prop_def)
  from d have "params query_bare = Absent \<and> 0 = length ([]::heap) \<and> ([]::obj) = []
           \<or> params query_bare = Defined 0 \<and> 0 < length ([]::heap) \<and> ([]::obj) = ([]::heap) ! 0"
    by simp
  from queryFeatures_defaults [OF this]
  have g: "\<exists>opts h'.
         (\<forall>request. queryFeatures request query_bare []
                      = Inr (request (url query_bare @ ''/query'') opts h', h'))
       \<and> params opts = Defined 0
       \<and> read_prop h' 0 ''where'' = JStr ''1=1''
       \<and> read_prop h' 0 ''outFields'' = JStr ''*''"
    unfolding e by simp
  show ?thesis by (intro conjI a b c d g)
qed

text \<open>
  Claim C4 as stated fails for a caller who supplies the empty string as \<^verbatim>\<open>where\<close>: the
  value handed on is \<^verbatim>\<open>"1=1"\<close>, not the caller's.
\<close>

theorem queryFeatures_supplied_unchanged_counterexample:
  "params query_blank = Defined 0
   \<and> map_of (blank_where_heap ! 0) ''where'' = Some (JStr '''')
   \<and> queryFeatures (resolving_request JNull) query_blank blank_where_heap
       = Inr (Resolved JNull, [[(''where'', JStr ''1=1''), (''outFields'', JStr ''*'')], []])"
  by (simp add: query_blank_def blank_where_heap_def queryFeatures_def alloc_def spread_def
      read_prop_def write_prop_def get_prop_def resolving_request_def)

text \<open>
  Claim C10. When the caller's \<^verbatim>\<open>params\<close> is an object whose \<^verbatim>\<open>where\<close> or
  \<^verbatim>\<open>outFields\<close> is absent or counts as false, \<^verbatim>\<open>queryFeatures\<close> writes the default
  into that very object: the options handed on refer to the caller's object, and after
  the call the object is no longer what it was.
\<close>

theorem queryFeatures_writes_caller_params:
  assumes "params ro = Defined p" and "p < length h"
      and "falsy (read_prop h p ''where'') \<or> falsy (read_prop h p ''outFields'')"
  shows "\<exists>opts h'.
           (\<forall>request. queryFeatures request ro h = Inr (request (url ro @ ''/query'') opts h', h'))
         \<and> params opts = Defined p
         \<and> h' ! p \<noteq> h ! p
         \<and> (falsy (read_prop h p ''where'') \<longrightarrow> read_prop h' p ''where'' = JStr ''1=1'')
         \<and> (falsy (read_prop h p ''outFields'') \<longrightarrow> read_prop h' p ''outFields'' = JStr ''*'')"
proof -
  from assms(1,2) have s: "spread (Defined (length h)) (params ro) = Defined p"
    and le: "p \<le> length h"
    by (simp_all add: spread_def)
  have r: "read_prop (h @ [[]]) p k = read_prop h p k" for k
    using assms(2) by (simp add: read_prop_def nth_append)
  from queryFeatures_result [OF s le] obtain opts h' where
      c: "\<forall>request. queryFeatures request ro h = Inr (request (url ro @ ''/query'') opts h', h')"
    and d: "params opts = Defined p"
    and w0: "read_prop h' p ''where''
             = (if falsy (read_prop (h @ [[]]) p ''where'') then JStr ''1=1''
                else read_prop (h @ [[]]) p ''where'')"
    and f0: "read_prop h' p ''outFields''
             = (if falsy (read_prop (h @ [[]]) p ''outFields'') then JStr ''*''
                else read_prop (h @ [[]]) p ''outFields'')"
    by (elim exE conjE)
  have w: "read_prop h' p ''where''
             = (if falsy (read_prop h p ''where'') then JStr ''1=1'' else read_prop h p ''where'')"
    and f: "read_prop h' p ''outFields''
             = (if falsy (read_prop h p ''outFields'') then JStr ''*'' else read_prop h p ''outFields'')"
    using w0 f0 by (simp_all only: r)
  have n: "h' ! p \<noteq> h ! p"
  proof
    assume "h' ! p = h ! p"
    then have "read_prop h' p ''where'' = read_prop h p ''where''"
      and "read_prop h' p ''outFields'' = read_prop h p ''outFields''"
      by (simp_all add: read_prop_def)
    with w f assms(3) show False by (auto split: if_splits)
  qed
  have w': "falsy (read_prop h p ''where'') \<longrightarrow> read_prop h' p ''where'' = JStr ''1=1''"
    and f': "falsy (read_prop h p ''outFields'') \<longrightarrow> read_prop h' p ''outFields'' = JStr ''*''"
    using w f by simp_all
  show ?thesis
    by (intro exI [of _ opts] exI [of _ h'] conjI c d n w' f')
qed

text \<open>A caller whose \<^verbatim>\<open>params\<close> is \<^verbatim>\<open>{gdbVersion: "v1"}\<close>.\<close>

theorem queryFeatures_writes_caller_params_witness:
  "params query_blank = Defined 0 \<and> 0 < length plain_heap
   \<and> falsy (read_prop plain_heap 0 ''where'') \<and> falsy (read_prop plain_heap 0 ''outFields'')
   \<and> (\<exists>opts h'.
         (\<forall>request. queryFeatures request query_blank plain_heap
                      = Inr (request (url query_blank @ ''/query'') opts h', h'))
       \<and> params opts = Defined 0
       \<and> h' ! 0 \<noteq> plain_heap ! 0
       \<and> read_prop h' 0 ''where'' = JStr ''1=1''
       \<and> read_prop h' 0 ''outFields'' = JStr ''*'')"
proof -
  have a: "params query_blank = Defined 0" by (simp add: query_blank_def)
  have b: "0 < length plain_heap" by (simp add: plain_heap_def)
  have c: "falsy (read_prop plain_heap 0 ''where'')" and d: "falsy (read_prop plain_heap 0 ''outFields'')"
    by (simp_all add: plain_heap_def read_prop_def get_prop_def)
  from c have e: "falsy (read_prop plain_heap 0 ''where'') \<or> falsy (read_prop plain_heap 0 ''outFields'')"
    by (rule disjI1)
  have f: "\<exists>opts h'.
         (\<forall>request. queryFeatures request query_blank plain_heap
                      = Inr (request (url query_blank @ ''/query'') opts h', h'))
       \<and> params opts = Defined 0
       \<and> h' ! 0 \<noteq> plain_heap ! 0
       \<and> read_prop h' 0 ''where'' = JStr ''1=1''
       \<and> read_prop h' 0 ''outFields'' = JStr ''*''"
    using queryFeatures_writes_caller_params [OF a b e] c d by simp
  show ?thesis by (intro conjI a b c d f)
qed

text \<open>
  Claim C2, as the code has it. \<^verbatim>\<open>addFeatures\<close>, \<^verbatim>\<open>updateFeatures\<close> and
  \<^verbatim>\<open>deleteFeatures\<close> copy the options envelope and not the \<^verbatim>\<open>params\<close> object in it:
  when the caller supplies a \<^verbatim>\<open>params\<close> object, the options handed to the collaborator
  refer to that same object, the reserved member (\<^verbatim>\<open>features\<close> or \<^verbatim>\<open>objectIds\<close>) is set
  on it, and after the call the caller's object holds the payload under the reserved
  member. Its other members and every other object of the caller's are unchanged.
\<close>

theorem edits_write_caller_params:
  assumes "p < length h"
  shows "(params aro = Defined p \<longrightarrow>
            (\<exists>h'. (\<forall>request. addFeatures request aro h
                                 = Inr (request (url aro @ ''/addFeatures'') aro h', h'))
                \<and> h' ! p = AList.update ''features'' (JArr (adds aro)) (h ! p)
                \<and> (\<forall>q. q < length h \<and> q \<noteq> p \<longrightarrow> h' ! q = h ! q)))
       \<and> (params uro = Defined p \<longrightarrow>
            (\<exists>h'. (\<forall>request. updateFeatures request uro h
                                 = Inr (request (url uro @ ''/updateFeatures'') uro h', h'))
                \<and> h' ! p = AList.update ''features'' (JArr (updates uro)) (h ! p)
                \<and> (\<forall>q. q < length h \<and> q \<noteq> p \<longrightarrow> h' ! q = h ! q)))
       \<and> (params dro = Defined p \<longrightarrow>
            (\<exists>h'. (\<forall>request. deleteFeatures request dro h
                                 = Inr (request (url dro @ ''/deleteFeatures'') dro h', h'))
                \<and> h' ! p = AList.update ''objectIds'' (JArr (map JNum (deletes dro))) (h ! p)
                \<and> (\<forall>q. q < length h \<and> q \<noteq> p \<longrightarrow> h' ! q = h ! q)))"
proof (intro conjI impI)
  assume a: "params aro = Defined p"
  let ?h' = "write_prop p ''features'' (JArr (adds aro)) (h @ [[]])"
  have "\<forall>request. addFeatures request aro h = Inr (request (url aro @ ''/addFeatures'') aro ?h', ?h')"
    using a by (simp add: addFeatures_given)
  moreover have "?h' ! p = AList.update ''features'' (JArr (adds aro)) (h ! p)"
    using assms by (rule write_prop_alloc_same)
  moreover have "\<forall>q. q < length h \<and> q \<noteq> p \<longrightarrow> ?h' ! q = h ! q"
    by (simp add: write_prop_alloc_other)
  ultimately show "\<exists>h'. (\<forall>request. addFeatures request aro h
                                 = Inr (request (url aro @ ''/addFeatures'') aro h', h'))
                \<and> h' ! p = AList.update ''features'' (JArr (adds aro)) (h ! p)
                \<and> (\<forall>q. q < length h \<and> q \<noteq> p \<longrightarrow> h' ! q = h ! q)"
    by (intro exI [of _ ?h'] conjI)
next
  assume a: "params uro = Defined p"
  let ?h' = "write_prop p ''features'' (JArr (updates uro)) (h @ [[]])"
  have "\<forall>request. updateFeatures request uro h
          = Inr (request (url uro @ ''/updateFeatures'') uro ?h', ?h')"
    using a by (simp add: updateFeatures_given)
  moreover have "?h' ! p = AList.update ''features'' (JArr (updates uro)) (h ! p)"
    using assms by (rule write_prop_alloc_same)
  moreover have "\<forall>q. q < length h \<and> q \<noteq> p \<longrightarrow> ?h' ! q = h ! q"
    by (simp add: write_prop_alloc_other)
  ultimately show "\<exists>h'. (\<forall>request. updateFeatures request uro h
                                 = Inr (request (url uro @ ''/updateFeatures'') uro h', h'))
                \<and> h' ! p = AList.update ''features'' (JArr (updates uro)) (h ! p)
                \<and> (\<forall>q. q < length h \<and> q \<noteq> p \<longrightarrow> h' ! q = h ! q)"
    by (intro exI [of _ ?h'] conjI)
next
  assume a: "params dro = Defined p"
  let ?h' = "write_prop p ''objectIds'' (JArr (map JNum (deletes dro))) (h @ [[]])"
  have "\<forall>request. deleteFeatures request dro h
          = Inr (request (url dro @ ''/deleteFeatures'') dro ?h', ?h')"
    using a by (simp add: deleteFeatures_given)
  moreover have "?h' ! p = AList.update ''objectIds'' (JArr (map JNum (deletes dro))) (h ! p)"
    using assms by (rule write_prop_alloc_same)
  moreover have "\<forall>q. q < length h \<and> q \<noteq> p \<longrightarrow> ?h' ! q = h ! q"
    by (simp add: write_prop_alloc_other)
  ultimately show "\<exists>h'. (\<forall>request. deleteFeatures request dro h
                                 = Inr (request (url dro @ ''/deleteFeatures'') dro h', h'))
                \<and> h' ! p = AList.update ''objectIds'' (JArr (map JNum (deletes dro))) (h ! p)
                \<and> (\<forall>q. q < length h \<and> q \<noteq> p \<longrightarrow> h' ! q = h ! q)"
    by (intro exI [of _ ?h'] conjI)
qed

text \<open>Three calls that share the \<^verbatim>\<open>params\<close> object \<^verbatim>\<open>{gdbVersion: "v1"}\<close>.\<close>

theorem edits_write_caller_params_witness:
  "0 < length plain_heap
   \<and> params add_plain = Defined 0 \<and> params update_plain = Defined 0 \<and> params delete_plain = Defined 0
   \<and> (\<exists>h'. (\<forall>request. addFeatures request add_plain plain_heap
                         = Inr (request (url add_plain @ ''/addFeatures'') add_plain h', h'))
         \<and> h' ! 0 = [(''gdbVersion'', JStr ''v1''), (''features'', JArr [sample_feature])])
   \<and> (\<exists>h'. (\<forall>request. updateFeatures request update_plain plain_heap
                         = Inr (request (url update_plain @ ''/updateFeatures'') update_plain h', h'))
         \<and> h' ! 0 = [(''gdbVersion'', JStr ''v1''), (''features'', JArr [sample_feature])])
   \<and> (\<exists>h'. (\<forall>request. deleteFeatures request delete_plain plain_heap
                         = Inr (request (url delete_plain @ ''/deleteFeatures'') delete_plain h', h'))
         \<and> h' ! 0 = [(''gdbVersion'', JStr ''v1''), (''objectIds'', JArr [JNum 1, JNum 2, JNum 3])])"
proof -
  have l: "0 < length plain_heap" by (simp add: plain_heap_def)
  have a: "params add_plain = Defined 0" by (simp add: add_plain_def)
  have u: "params update_plain = Defined 0" by (simp add: update_plain_def)
  have d: "params delete_plain = Defined 0" by (simp add: delete_plain_def)
  have fa: "AList.update ''features'' (JArr (adds add_plain)) (plain_heap ! 0)
              = [(''gdbVersion'', JStr ''v1''), (''features'', JArr [sample_feature])]"
    by (simp add: plain_heap_def add_plain_def)
  have fu: "AList.update ''features'' (JArr (updates update_plain)) (plain_heap ! 0)
              = [(''gdbVersion'', JStr ''v1''), (''features'', JArr [sample_feature])]"
    by (simp add: plain_heap_def update_plain_def)
  have fd: "AList.update ''objectIds'' (JArr (map JNum (deletes delete_plain))) (plain_heap ! 0)
              = [(''gdbVersion'', JStr ''v1''), (''objectIds'', JArr [JNum 1, JNum 2, JNum 3])]"
    by (simp add: plain_heap_def delete_plain_def)
  note t = edits_write_caller_params [OF l, of add_plain update_plain delete_plain]
  note ta = t [THEN conjunct1, THEN mp, OF a]
  note tu = t [THEN conjunct2, THEN conjunct1, THEN mp, OF u]
  note td = t [THEN conjunct2, THEN conjunct2, THEN mp, OF d]
  from ta obtain ha where
      "\<forall>request. addFeatures request add_plain plain_heap
          = Inr (request (url add_plain @ ''/addFeatures'') add_plain ha, ha)"
      "ha ! 0 = AList.update ''features'' (JArr (adds add_plain)) (plain_heap ! 0)"
    by (elim conjE exE)
  then have ra: "\<exists>h'. (\<forall>request. addFeatures request add_plain plain_heap
                         = Inr (request (url add_plain @ ''/addFeatures'') add_plain h', h'))
         \<and> h' ! 0 = [(''gdbVersion'', JStr ''v1''), (''features'', JArr [sample_feature])]"
    unfolding fa by (intro exI [of _ ha] conjI)
  from tu obtain hu where
      "\<forall>request. updateFeatures request update_plain plain_heap
          = Inr (request (url update_plain @ ''/updateFeatures'') update_plain hu, hu)"
      "hu ! 0 = AList.update ''features'' (JArr (updates update_plain)) (plain_heap ! 0)"
    by (elim conjE exE)
  then have ru: "\<exists>h'. (\<forall>request. updateFeatures request update_plain plain_heap
                         = Inr (request (url update_plain @ ''/updateFeatures'') update_plain h', h'))
         \<and> h' ! 0 = [(''gdbVersion'', JStr ''v1''), (''features'', JArr [sample_feature])]"
    unfolding fu by (intro exI [of _ hu] conjI)
  from td obtain hd where
      "\<forall>request. deleteFeatures request delete_plain plain_heap
          = Inr (request (url delete_plain @ ''/deleteFeatures'') delete_plain hd, hd)"
      "hd ! 0 = AList.update ''objectIds'' (JArr (map JNum (deletes delete_plain))) (plain_heap ! 0)"
    by (elim conjE exE)
  then have rd: "\<exists>h'. (\<forall>request. deleteFeatures request delete_plain plain_heap
                         = Inr (request (url delete_plain @ ''/deleteFeatures'') delete_plain h', h'))
         \<and> h' ! 0 = [(''gdbVersion'', JStr ''v1''), (''objectIds'', JArr [JNum 1, JNum 2, JNum 3])]"
    unfolding fd by (intro exI [of _ hd] conjI)
  show ?thesis by (intro conjI l a u d ra ru rd)
qed

text \<open>
  Claim C2 as stated fails: the caller's \<^verbatim>\<open>params\<close> object \<^verbatim>\<open>{gdbVersion: "v1"}\<close> has a
  \<^verbatim>\<open>features\<close> member after \<^verbatim>\<open>addFeatures\<close> returns, which it did not have before.
\<close>

theorem params_left_unchanged_counterexample:
  "params add_plain = Defined 0
   \<and> plain_heap ! 0 = [(''gdbVersion'', JStr ''v1'')]
   \<and> addFeatures (resolving_request JNull) add_plain plain_heap
       = Inr (Resolved JNull,
              [[(''gdbVersion'', JStr ''v1''), (''features'', JArr [sample_feature])], []])
   \<and> map_of (plain_heap ! 0) ''features'' = None"
  by (simp add: add_plain_def plain_heap_def addFeatures_def alloc_def spread_def
      write_prop_def resolving_request_def)

text \<open>
  Claim C3 fails on the code. A caller who passes \<^verbatim>\<open>httpMethod: "GET"\<close> to an edit
  operation has it handed on to the collaborator: no edit operation sets or checks the
  method, although each is commented as POST only. The collaborator below answers with
  the verb it was asked to use.
\<close>

theorem edits_hand_on_caller_method:
  "httpMethod add_get = Defined GET
   \<and> addFeatures verb_request add_get []
       = Inr (Resolved (JStr ''GET''), [[(''features'', JArr [sample_feature])]])
   \<and> updateFeatures verb_request update_get []
       = Inr (Resolved (JStr ''GET''), [[(''features'', JArr [sample_feature])]])
   \<and> deleteFeatures verb_request delete_get []
       = Inr (Resolved (JStr ''GET''), [[(''objectIds'', JArr [JNum 1, JNum 2, JNum 3])]])"
  by (simp add: add_get_def update_get_def delete_get_def addFeatures_def updateFeatures_def
      deleteFeatures_def alloc_def spread_def write_prop_def verb_request_def request_method_def)

text \<open>
  Claim C8. Each of the five operations that reaches its call of the collaborator returns
  a promise that rejects with the value the collaborator's promise rejects with.
  \<^verbatim>\<open>getFeature\<close> always reaches the call; the other four reach it unless the caller's
  options have a \<^verbatim>\<open>params\<close> member that is \<^verbatim>\<open>undefined\<close>, in which case they raise
  before calling. In each case there is one call (URL, options and store) such that
  whatever collaborator rejects that call with \<open>e\<close> makes the operation reject with \<open>e\<close>.
\<close>

theorem rejections_propagate:
  assumes "params qro \<noteq> Undefined" and "params aro \<noteq> Undefined"
      and "params uro \<noteq> Undefined" and "params dro \<noteq> Undefined"
  shows "(\<exists>u opts hq. \<forall>request e.
            request u opts hq = Rejected e \<longrightarrow> getFeature request gro h = Rejected e)
       \<and> (\<exists>u opts hq. \<forall>request e.
            request u opts hq = Rejected e \<longrightarrow> queryFeatures request qro h = Inr (Rejected e, hq))
       \<and> (\<exists>u opts hq. \<forall>request e.
            request u opts hq = Rejected e \<longrightarrow> addFeatures request aro h = Inr (Rejected e, hq))
       \<and> (\<exists>u opts hq. \<forall>request e.
            request u opts hq = Rejected e \<longrightarrow> updateFeatures request uro h = Inr (Rejected e, hq))
       \<and> (\<exists>u opts hq. \<forall>request e.
            request u opts hq = Rejected e \<longrightarrow> deleteFeatures request dro h = Inr (Rejected e, hq))"
proof (intro conjI)
  show "\<exists>u opts hq. \<forall>request e.
          request u opts hq = Rejected e \<longrightarrow> getFeature request gro h = Rejected e"
    by (intro exI [of _ "url gro @ ''/'' @ num_to_string (id_num gro)"]
          exI [of _ "gro\<lparr>httpMethod := (if httpMethod gro = Absent then Defined GET else httpMethod gro)\<rparr>"]
          exI [of _ h])
       (simp add: getFeature_call)
next
  from queryFeatures_calls [OF assms(1), where h = h] obtain opts hq where
    "\<forall>request. queryFeatures request qro h = Inr (request (url qro @ ''/query'') opts hq, hq)"
    by (elim exE)
  then show "\<exists>u opts hq. \<forall>request e.
      request u opts hq = Rejected e \<longrightarrow> queryFeatures request qro h = Inr (Rejected e, hq)"
    by (intro exI [of _ "url qro @ ''/query''"] exI [of _ opts] exI [of _ hq]) simp
next
  from addFeatures_calls [OF assms(2), where h = h] obtain opts hq where
    "\<forall>request. addFeatures request aro h = Inr (request (url aro @ ''/addFeatures'') opts hq, hq)"
    by (elim exE)
  then show "\<exists>u opts hq. \<forall>request e.
      request u opts hq = Rejected e \<longrightarrow> addFeatures request aro h = Inr (Rejected e, hq)"
    by (intro exI [of _ "url aro @ ''/addFeatures''"] exI [of _ opts] exI [of _ hq]) simp
next
  from updateFeatures_calls [OF assms(3), where h = h] obtain opts hq where
    "\<forall>request. updateFeatures request uro h = Inr (request (url uro @ ''/updateFeatures'') opts hq, hq)"
    by (elim exE)
  then show "\<exists>u opts hq. \<forall>request e.
      request u opts hq = Rejected e \<longrightarrow> updateFeatures request uro h = Inr (Rejected e, hq)"
    by (intro exI [of _ "url uro @ ''/updateFeatures''"] exI [of _ opts] exI [of _ hq]) simp
next
  from deleteFeatures_calls [OF assms(4), where h = h] obtain opts hq where
    "\<forall>request. deleteFeatures request dro h = Inr (request (url dro @ ''/deleteFeatures'') opts hq, hq)"
    by (elim exE)
  then show "\<exists>u opts hq. \<forall>request e.
      request u opts hq = Rejected e \<longrightarrow> deleteFeatures request dro h = Inr (Rejected e, hq)"
    by (intro exI [of _ "url dro @ ''/deleteFeatures''"] exI [of _ opts] exI [of _ hq]) simp
qed

text \<open>Five calls against a collaborator that rejects every request with a 503 error.\<close>

theorem rejections_propagate_witness:
  "params query_bare \<noteq> Undefined \<and> params add_over \<noteq> Undefined
   \<and> params update_bare \<noteq> Undefined \<and> params delete_123 \<noteq> Undefined
   \<and> getFeature (rejecting_request error_503) get_42 add_over_heap = Rejected error_503
   \<and> (\<exists>hq. queryFeatures (rejecting_request error_503) query_bare add_over_heap = Inr (Rejected error_503, hq))
   \<and> (\<exists>hq. addFeatures (rejecting_request error_503) add_over add_over_heap
              = Inr (Rejected error_503, hq))
   \<and> (\<exists>hq. updateFeatures (rejecting_request error_503) update_bare add_over_heap = Inr (Rejected error_503, hq))
   \<and> (\<exists>hq. deleteFeatures (rejecting_request error_503) delete_123 add_over_heap = Inr (Rejected error_503, hq))"
proof -
  have q: "params query_bare \<noteq> Undefined" by (simp add: query_bare_def)
  have a: "params add_over \<noteq> Undefined" by (simp add: add_over_def)
  have u: "params update_bare \<noteq> Undefined" by (simp add: update_bare_def)
  have d: "params delete_123 \<noteq> Undefined" by (simp add: delete_123_def)
  note t = rejections_propagate [OF q a u d, of get_42 add_over_heap]
  from t [THEN conjunct1] obtain u1 o1 h1 where
    "\<forall>request e. request u1 o1 h1 = Rejected e \<longrightarrow> getFeature request get_42 add_over_heap = Rejected e"
    by (elim exE)
  from this [THEN spec, THEN spec, THEN mp, of "rejecting_request error_503" error_503]
  have r1: "getFeature (rejecting_request error_503) get_42 add_over_heap = Rejected error_503"
    by (simp add: rejecting_request_def)
  from t [THEN conjunct2, THEN conjunct1] obtain u2 o2 h2 where
    "\<forall>request e. request u2 o2 h2 = Rejected e \<longrightarrow>
       queryFeatures request query_bare add_over_heap = Inr (Rejected e, h2)"
    by (elim exE)
  from this [THEN spec, THEN spec, THEN mp, of "rejecting_request error_503" error_503]
  have "queryFeatures (rejecting_request error_503) query_bare add_over_heap = Inr (Rejected error_503, h2)"
    by (simp add: rejecting_request_def)
  then have r2: "\<exists>hq. queryFeatures (rejecting_request error_503) query_bare add_over_heap
                    = Inr (Rejected error_503, hq)"
    by (rule exI)
  from t [THEN conjunct2, THEN conjunct2, THEN conjunct1] obtain u3 o3 h3 where
    "\<forall>request e. request u3 o3 h3 = Rejected e \<longrightarrow>
       addFeatures request add_over add_over_heap = Inr (Rejected e, h3)"
    by (elim exE)
  from this [THEN spec, THEN spec, THEN mp, of "rejecting_request error_503" error_503]
  have "addFeatures (rejecting_request error_503) add_over add_over_heap = Inr (Rejected error_503, h3)"
    by (simp add: rejecting_request_def)
  then have r3: "\<exists>hq. addFeatures (rejecting_request error_503) add_over add_over_heap
                    = Inr (Rejected error_503, hq)"
    by (rule exI)
  from t [THEN conjunct2, THEN conjunct2, THEN conjunct2, THEN conjunct1] obtain u4 o4 h4 where
    "\<forall>request e. request u4 o4 h4 = Rejected e \<longrightarrow>
       updateFeatures request update_bare add_over_heap = Inr (Rejected e, h4)"
    by (elim exE)
  from this [THEN spec, THEN spec, THEN mp, of "rejecting_request error_503" error_503]
  have "updateFeatures (rejecting_request error_503) update_bare add_over_heap = Inr (Rejected error_503, h4)"
    by (simp add: rejecting_request_def)
  then have r4: "\<exists>hq. updateFeatures (rejecting_request error_503) update_bare add_over_heap
                    = Inr (Rejected error_503, hq)"
    by (rule exI)
  from t [THEN conjunct2, THEN conjunct2, THEN conjunct2, THEN conjunct2] obtain u5 o5 h5 where
    "\<forall>request e. request u5 o5 h5 = Rejected e \<longrightarrow>
       deleteFeatures request delete_123 add_over_heap = Inr (Rejected e, h5)"
    by (elim exE)
  from this [THEN spec, THEN spec, THEN mp, of "rejecting_request error_503" error_503]
  have "deleteFeatures (rejecting_request error_503) delete_123 add_over_heap = Inr (Rejected error_503, h5)"
    by (simp add: rejecting_request_def)
  then have r5: "\<exists>hq. deleteFeatures (rejecting_request error_503) delete_123 add_over_heap
                    = Inr (Rejected error_503, hq)"
    by (rule exI)
  show ?thesis by (intro conjI q a u d r1 r2 r3 r4 r5)
qed

text \<open>
  Claim C9, as the code has it. \<^verbatim>\<open>getFeature\<close> performs no validation, and its outcome
  follows the collaborator's: a rejection is passed on; a payload that is an object with
  a \<^verbatim>\<open>feature\<close> member resolves with that member's value; a payload without the member
  resolves with \<^verbatim>\<open>undefined\<close>, unless the payload is itself \<^verbatim>\<open>null\<close> or \<^verbatim>\<open>undefined\<close>,
  where reading \<^verbatim>\<open>response.feature\<close> raises and the promise rejects with that TypeError.
\<close>

theorem getFeature_outcomes:
  assumes "u = url ro @ ''/'' @ num_to_string (id_num ro)"
      and "opts = ro\<lparr>httpMethod := (if httpMethod ro = Absent then Defined GET else httpMethod ro)\<rparr>"
  shows "(request u opts h = Rejected e \<longrightarrow> getFeature request ro h = Rejected e)
       \<and> (request u opts h = Resolved v \<and> has_prop v ''feature'' \<longrightarrow>
            (\<exists>ms x. v = JObj ms \<and> map_of ms ''feature'' = Some x
                    \<and> getFeature request ro h = Resolved x))
       \<and> (request u opts h = Resolved v \<and> \<not> has_prop v ''feature''
             \<and> v \<noteq> JNull \<and> v \<noteq> JUndefined \<longrightarrow>
            getFeature request ro h = Resolved JUndefined)
       \<and> (request u opts h = Resolved v \<and> (v = JNull \<or> v = JUndefined) \<longrightarrow>
            getFeature request ro h = Rejected (JError TypeError))"
proof (intro conjI impI)
  assume "request u opts h = Rejected e"
  then show "getFeature request ro h = Rejected e"
    unfolding assms by (simp add: getFeature_call)
next
  assume a: "request u opts h = Resolved v \<and> has_prop v ''feature''"
  then obtain ms x where "v = JObj ms" "map_of ms ''feature'' = Some x" "member v ''feature'' = Inr x"
    using member_has_prop by blast
  moreover from this a have "getFeature request ro h = Resolved x"
    unfolding assms by (simp add: getFeature_call)
  ultimately show "\<exists>ms x. v = JObj ms \<and> map_of ms ''feature'' = Some x
                    \<and> getFeature request ro h = Resolved x"
    by (intro exI [of _ ms] exI [of _ x] conjI)
next
  assume a: "request u opts h = Resolved v \<and> \<not> has_prop v ''feature''
             \<and> v \<noteq> JNull \<and> v \<noteq> JUndefined"
  then have "member v ''feature'' = Inr JUndefined" by (simp add: member_lacks_prop)
  with a show "getFeature request ro h = Resolved JUndefined"
    unfolding assms by (simp add: getFeature_call)
next
  assume a: "request u opts h = Resolved v \<and> (v = JNull \<or> v = JUndefined)"
  then have "member v ''feature'' = Inl TypeError" by (simp add: member_nullish)
  with a show "getFeature request ro h = Rejected (JError TypeError)"
    unfolding assms by (simp add: getFeature_call)
qed

text \<open>
  \<^verbatim>\<open>getFeature({url: "https://svc/layer", id: 42})\<close> against four collaborators: one that
  rejects, one whose payload has a \<^verbatim>\<open>feature\<close>, one whose payload is an error object
  without it, and one that resolves with \<^verbatim>\<open>undefined\<close>.
\<close>

theorem getFeature_outcomes_witness:
  "getFeature (rejecting_request error_503) get_42 [] = Rejected error_503
   \<and> has_prop feature_response ''feature''
   \<and> getFeature (resolving_request feature_response) get_42 [] = Resolved sample_feature
   \<and> \<not> has_prop error_response ''feature''
   \<and> getFeature (resolving_request error_response) get_42 [] = Resolved JUndefined
   \<and> getFeature (resolving_request JUndefined) get_42 [] = Rejected (JError TypeError)"
proof -
  have u: "''https://svc/layer/42'' = url get_42 @ ''/'' @ num_to_string (id_num get_42)"
    by (simp add: get_42_def num_to_string_def id_42.rep_eq)
  have o: "get_42\<lparr>httpMethod := Defined GET\<rparr>
           = get_42\<lparr>httpMethod := (if httpMethod get_42 = Absent then Defined GET else httpMethod get_42)\<rparr>"
    by (simp add: get_42_def)
  note t = getFeature_outcomes [OF u o, where h = "[]"]
  have r1: "getFeature (rejecting_request error_503) get_42 [] = Rejected error_503"
    using t [of "rejecting_request error_503" error_503 JNull, THEN conjunct1]
    by (simp add: rejecting_request_def)
  have p2: "has_prop feature_response ''feature''" by (simp add: feature_response_def)
  have r2: "getFeature (resolving_request feature_response) get_42 [] = Resolved sample_feature"
    using t [of "resolving_request feature_response" JNull feature_response,
             THEN conjunct2, THEN conjunct1] p2
    by (simp add: resolving_request_def) (simp add: feature_response_def)
  have p3: "\<not> has_prop error_response ''feature''" by (simp add: error_response_def)
  have r3: "getFeature (resolving_request error_response) get_42 [] = Resolved JUndefined"
    using t [of "resolving_request error_response" JNull error_response,
             THEN conjunct2, THEN conjunct2, THEN conjunct1] p3
    by (simp add: resolving_request_def) (simp add: error_response_def)
  have r4: "getFeature (resolving_request JUndefined) get_42 [] = Rejected (JError TypeError)"
    using t [of "resolving_request JUndefined" JNull JUndefined,
             THEN conjunct2, THEN conjunct2, THEN conjunct2]
    by (simp add: resolving_request_def)
  show ?thesis by (intro conjI r1 p2 r2 p3 r3 r4)
qed

text \<open>
  Claim C9 as stated fails for the payload \<^verbatim>\<open>null\<close>: it has no \<^verbatim>\<open>feature\<close> member, yet
  the caller does not get \<^verbatim>\<open>undefined\<close> but a promise rejected with a TypeError that this
  module's own callback raised.
\<close>

theorem getFeature_missing_key_counterexample:
  "\<not> has_prop JNull ''feature''
   \<and> getFeature (resolving_request JNull) get_42 [] = Rejected (JError TypeError)
   \<and> getFeature (resolving_request JNull) get_42 [] \<noteq> Resolved JUndefined"
  by (simp add: getFeature_def resolving_request_def Let_def)

end
